theory Spec2Isabelle
  imports Main "HOL-Library.Char_ord" "HOL-Library.List_Lexorder" "HOL-Library.Multiset"
begin

section \<open>Python values used by feedmixer.py\<close>

text \<open>
  Exceptions are values.  \<open>ParseError\<close> is the class declared in feedmixer.py (line 75),
  \<open>RequestException\<close> is the one it imports from requests; the other three are the
  built-in exceptions that the expressions of the module can raise: \<open>KeyError\<close> from a
  subscript \<^verbatim>\<open>e['published']\<close> on a missing key, \<open>AttributeError\<close> from an attribute read
  \<^verbatim>\<open>enc.length\<close> on a mapping without that key, \<open>ValueError\<close> from the constructors
  \<^verbatim>\<open>datetime.datetime(...)\<close> and \<^verbatim>\<open>ThreadPoolExecutor(max_workers=...)\<close>.
\<close>

datatype py_exn =
    RequestException string
  | ParseError string
  | KeyError string
  | AttributeError string
  | ValueError string

type_synonym url = string

text \<open>
  The slice \<^verbatim>\<open>xs[0:k]\<close> (also written \<^verbatim>\<open>xs[:k]\<close>): a negative stop counts from the end
  of the list and is clamped at 0, a stop beyond the end is clamped at the length.
\<close>

definition py_slice_to :: "'a list \<Rightarrow> int \<Rightarrow> 'a list" where
  "py_slice_to xs k =
     (if k < 0 then take (nat (int (length xs) + k)) xs else take (nat k) xs)"

text \<open>
  \<^verbatim>\<open>time.struct_time\<close>, the nine-field calendar tuple that the parser stores under
  \<^verbatim>\<open>published_parsed\<close> and \<^verbatim>\<open>updated_parsed\<close>.  It is a non-empty tuple, hence truthy.
\<close>

record struct_time =
  tm_year :: int
  tm_mon :: int
  tm_mday :: int
  tm_hour :: int
  tm_min :: int
  tm_sec :: int
  tm_wday :: int
  tm_yday :: int
  tm_isdst :: int

text \<open>
  A naive \<^verbatim>\<open>datetime.datetime\<close> built from six positional arguments (microsecond 0, no
  time zone).  The constructor raises \<open>ValueError\<close> unless every field is in range.
\<close>

record datetime =
  dt_year :: int
  dt_month :: int
  dt_day :: int
  dt_hour :: int
  dt_minute :: int
  dt_second :: int

definition is_leap :: "int \<Rightarrow> bool" where
  "is_leap y = (y mod 4 = 0 \<and> (y mod 400 = 0 \<or> y mod 100 \<noteq> 0))"

definition days_in_month :: "int \<Rightarrow> int \<Rightarrow> int" where
  "days_in_month y m =
     (if m = 2 then (if is_leap y then 29 else 28)
      else if m = 4 \<or> m = 6 \<or> m = 9 \<or> m = 11 then 30 else 31)"

definition datetime_in_range :: "int \<Rightarrow> int \<Rightarrow> int \<Rightarrow> int \<Rightarrow> int \<Rightarrow> int \<Rightarrow> bool" where
  "datetime_in_range y mo d h mi s =
     (1 \<le> y \<and> y \<le> 9999 \<and> 1 \<le> mo \<and> mo \<le> 12 \<and> 1 \<le> d \<and> d \<le> days_in_month y mo \<and>
      0 \<le> h \<and> h \<le> 23 \<and> 0 \<le> mi \<and> mi \<le> 59 \<and> 0 \<le> s \<and> s \<le> 59)"

definition datetime_new ::
  "int \<Rightarrow> int \<Rightarrow> int \<Rightarrow> int \<Rightarrow> int \<Rightarrow> int \<Rightarrow> py_exn + datetime" where
  "datetime_new y mo d h mi s =
     (if datetime_in_range y mo d h mi s
      then Inr \<lparr>dt_year = y, dt_month = mo, dt_day = d,
                dt_hour = h, dt_minute = mi, dt_second = s\<rparr>
      else Inl (ValueError ''datetime field out of range''))"

text \<open>Comparison of two naive datetimes: lexicographic on the six fields.\<close>

definition datetime_key :: "datetime \<Rightarrow> int list" where
  "datetime_key d =
     [dt_year d, dt_month d, dt_day d, dt_hour d, dt_minute d, dt_second d]"

definition datetime_le :: "datetime \<Rightarrow> datetime \<Rightarrow> bool" where
  "datetime_le a b = (datetime_key a \<le> datetime_key b)"

section \<open>The parser's records (feedparser's FeedParserDict)\<close>

text \<open>
  Every key of a parsed mapping is optional: \<open>None\<close> is an absent key.  The fields are
  the keys that feedmixer.py reads, prefixed by the mapping they belong to.
\<close>

record author_detail =
  a_email :: "string option"
  a_name :: "string option"
  a_href :: "string option"

record tag =
  t_term :: "string option"

record enclosure_link =
  enc_href :: "string option"
  enc_length :: "string option"
  enc_type :: "string option"

record parsed_entry =
  e_title :: "string option"
  e_link :: "string option"
  e_description :: "string option"
  e_author_detail :: "author_detail option"
  e_published :: "string option"
  e_published_parsed :: "struct_time option"
  e_updated_parsed :: "struct_time option"
  e_comments :: "string option"
  e_id :: "string option"
  e_license :: "string option"
  e_tags :: "tag list option"
  e_enclosures :: "enclosure_link list option"

text \<open>
  The result \<open>f\<close> of \<^verbatim>\<open>feedparser.parse\<close>: \<^verbatim>\<open>f.entries\<close>, \<^verbatim>\<open>f.bozo\<close>,
  \<^verbatim>\<open>f.bozo_exception\<close> (as formatted into the message) and \<^verbatim>\<open>f.feed.author_detail\<close>.
\<close>

record parsed_feed =
  f_entries :: "parsed_entry list"
  f_bozo :: bool
  f_bozo_exception :: string
  f_feed_author_detail :: "author_detail option"

section \<open>Selection of the newest entries and the feed-level author (lines 225-235)\<close>

definition select_newest :: "int \<Rightarrow> parsed_feed \<Rightarrow> parsed_entry list" where
  "select_newest nk f =
     (if nk = -1 then f_entries f else py_slice_to (f_entries f) nk)"

text \<open>
  The loop \<^verbatim>\<open>for e in newest\<close> of lines 232-235, entered when the feed has an
  \<^verbatim>\<open>author_detail\<close>: an entry without the key receives the feed's value.
\<close>

fun backfill_author :: "author_detail \<Rightarrow> parsed_entry list \<Rightarrow> parsed_entry list" where
  "backfill_author a [] = []"
| "backfill_author a (e # es) =
     (if e_author_detail e = None then e\<lparr>e_author_detail := Some a\<rparr> else e)
       # backfill_author a es"

definition use_feed_author :: "parsed_feed \<Rightarrow> parsed_entry list \<Rightarrow> parsed_entry list" where
  "use_feed_author f newest =
     (case f_feed_author_detail f of
        None \<Rightarrow> newest
      | Some a \<Rightarrow> backfill_author a newest)"

section \<open>Normalisation: extract_meta (lines 248-296)\<close>

text \<open>
  The dictionary built for one entry.  A key that the code always stores is a plain field
  (\<open>None\<close> being Python's None where the value comes from \<^verbatim>\<open>e.get(key)\<close>); a key that is
  stored only under a condition is an option whose \<open>None\<close> is the absent key.
\<close>

record Enclosure =
  encl_url :: string
  encl_length :: string
  encl_mime_type :: string

record metadata =
  m_title :: string
  m_link :: string
  m_description :: string
  m_author_email :: "string option option"
  m_author_name :: "string option option"
  m_author_link :: "string option option"
  m_pubdate :: "datetime option"
  m_updateddate :: "datetime option"
  m_comments :: "string option"
  m_unique_id :: "string option"
  m_item_copyright :: "string option"
  m_categories :: "string option list option"
  m_enclosures :: "Enclosure list option"

text \<open>\<^verbatim>\<open>e.get(key, '')\<close>.\<close>

definition get_default :: "string option \<Rightarrow> string" where
  "get_default v = (case v of None \<Rightarrow> [] | Some x \<Rightarrow> x)"

text \<open>\<^verbatim>\<open>datetime.datetime(*tp[:5] + (min(tp[5], 59),))\<close>.\<close>

definition to_datetime :: "struct_time \<Rightarrow> py_exn + datetime" where
  "to_datetime tp =
     datetime_new (tm_year tp) (tm_mon tp) (tm_mday tp) (tm_hour tp) (tm_min tp)
       (min (tm_sec tp) 59)"

text \<open>\<^verbatim>\<open>tp = e.get(key)\<close> followed by \<^verbatim>\<open>if tp: metadata[...] = datetime(...)\<close>.\<close>

definition convert_time :: "struct_time option \<Rightarrow> py_exn + datetime option" where
  "convert_time t =
     (case t of
        None \<Rightarrow> Inr None
      | Some tp \<Rightarrow> (case to_datetime tp of Inl x \<Rightarrow> Inl x | Inr d \<Rightarrow> Inr (Some d)))"

text \<open>An attribute read \<^verbatim>\<open>enc.key\<close> on a parsed mapping.\<close>

definition getattr :: "string \<Rightarrow> string option \<Rightarrow> py_exn + string" where
  "getattr k v = (case v of None \<Rightarrow> Inl (AttributeError k) | Some x \<Rightarrow> Inr x)"

text \<open>\<^verbatim>\<open>feedgenerator.Enclosure(enc.href, enc.length, enc.type)\<close>, arguments left to right.\<close>

definition new_Enclosure :: "enclosure_link \<Rightarrow> py_exn + Enclosure" where
  "new_Enclosure enc =
     (case getattr ''href'' (enc_href enc) of
        Inl x \<Rightarrow> Inl x
      | Inr h \<Rightarrow>
          (case getattr ''length'' (enc_length enc) of
             Inl x \<Rightarrow> Inl x
           | Inr l \<Rightarrow>
               (case getattr ''type'' (enc_type enc) of
                  Inl x \<Rightarrow> Inl x
                | Inr t \<Rightarrow> Inr \<lparr>encl_url = h, encl_length = l, encl_mime_type = t\<rparr>)))"

fun enclist_loop :: "Enclosure list \<Rightarrow> enclosure_link list \<Rightarrow> py_exn + Enclosure list" where
  "enclist_loop enclist [] = Inr enclist"
| "enclist_loop enclist (enc # encs) =
     (case new_Enclosure enc of
        Inl x \<Rightarrow> Inl x
      | Inr c \<Rightarrow> enclist_loop (enclist @ [c]) encs)"

definition convert_enclosures ::
  "enclosure_link list option \<Rightarrow> py_exn + Enclosure list option" where
  "convert_enclosures v =
     (case v of
        None \<Rightarrow> Inr None
      | Some encs \<Rightarrow>
          (case enclist_loop [] encs of Inl x \<Rightarrow> Inl x | Inr cs \<Rightarrow> Inr (Some cs)))"

text \<open>The body of the loop of extract_meta, for one entry \<open>e\<close>.\<close>

definition extract_meta_entry :: "parsed_entry \<Rightarrow> py_exn + metadata" where
  "extract_meta_entry e =
     (case convert_time (e_published_parsed e) of
        Inl x \<Rightarrow> Inl x
      | Inr pubdate \<Rightarrow>
          (case convert_time (e_updated_parsed e) of
             Inl x \<Rightarrow> Inl x
           | Inr updateddate \<Rightarrow>
               (case convert_enclosures (e_enclosures e) of
                  Inl x \<Rightarrow> Inl x
                | Inr enclosures \<Rightarrow>
                    Inr \<lparr>m_title = get_default (e_title e),
                         m_link = get_default (e_link e),
                         m_description = get_default (e_description e),
                         m_author_email = map_option a_email (e_author_detail e),
                         m_author_name = map_option a_name (e_author_detail e),
                         m_author_link = map_option a_href (e_author_detail e),
                         m_pubdate = pubdate,
                         m_updateddate = updateddate,
                         m_comments = e_comments e,
                         m_unique_id = e_id e,
                         m_item_copyright = e_license e,
                         m_categories = map_option (map t_term) (e_tags e),
                         m_enclosures = enclosures\<rparr>)))"

fun extract_meta_loop :: "metadata list \<Rightarrow> parsed_entry list \<Rightarrow> py_exn + metadata list" where
  "extract_meta_loop mixed [] = Inr mixed"
| "extract_meta_loop mixed (e # es) =
     (case extract_meta_entry e of
        Inl x \<Rightarrow> Inl x
      | Inr m \<Rightarrow> extract_meta_loop (mixed @ [m]) es)"

definition extract_meta :: "parsed_entry list \<Rightarrow> py_exn + metadata list" where
  "extract_meta parsed_entries = extract_meta_loop [] parsed_entries"

section \<open>The merge: sort on the 'published' key, descending (line 242)\<close>

text \<open>
  \<^verbatim>\<open>parsed_entries.sort(key=lambda e: e['published'], reverse=True)\<close>.  The key function
  runs on every element first and raises \<open>KeyError\<close> on an entry without the key.  The
  keys are the strings the parser stored, compared as strings.  With \<^verbatim>\<open>reverse=True\<close> the
  list is reversed, sorted stably in ascending order and reversed again, so that entries
  with equal keys keep their order.
\<close>

definition published_key :: "parsed_entry \<Rightarrow> py_exn + string" where
  "published_key e =
     (case e_published e of None \<Rightarrow> Inl (KeyError ''published'') | Some p \<Rightarrow> Inr p)"

fun keyed :: "parsed_entry list \<Rightarrow> py_exn + (string \<times> parsed_entry) list" where
  "keyed [] = Inr []"
| "keyed (e # es) =
     (case published_key e of
        Inl x \<Rightarrow> Inl x
      | Inr k \<Rightarrow> (case keyed es of Inl x \<Rightarrow> Inl x | Inr kes \<Rightarrow> Inr ((k, e) # kes)))"

definition sort_reverse :: "(string \<times> parsed_entry) list \<Rightarrow> (string \<times> parsed_entry) list" where
  "sort_reverse kes = rev (sort_key fst (rev kes))"

definition sort_by_published :: "parsed_entry list \<Rightarrow> py_exn + parsed_entry list" where
  "sort_by_published parsed_entries =
     (case keyed parsed_entries of
        Inl x \<Rightarrow> Inl x
      | Inr kes \<Rightarrow> Inr (map snd (sort_reverse kes)))"

section \<open>The FeedMixer object (lines 83-167)\<close>

text \<open>
  The attributes of an instance.  \<open>self_feeds\<close>, \<open>self_num_keep\<close>, \<open>self_mixed_entries\<close> and
  \<open>self_error_urls\<close> are the underscore-prefixed attributes behind the properties of the
  same names.  The cache is the external object handed to \<open>cache_get\<close>; its type is left
  open, and \<open>cache_get\<close> returns the cache as the call left it, so that every request is
  visible in the state.
\<close>

type_synonym future = "url \<times> (py_exn + string)"

record 'c FeedMixer =
  title :: string
  link :: string
  desc :: string
  max_feeds :: int
  self_feeds :: "url list"
  self_num_keep :: int
  max_threads :: int
  self_mixed_entries :: "metadata list"
  self_error_urls :: "url \<rightharpoonup> py_exn"
  cache_get :: "'c \<Rightarrow> url \<Rightarrow> (py_exn + string) \<times> 'c"
  cache :: 'c

definition init ::
  "string \<Rightarrow> string \<Rightarrow> string \<Rightarrow> url list \<Rightarrow> int \<Rightarrow> int \<Rightarrow> int \<Rightarrow> 'c \<Rightarrow>
   ('c \<Rightarrow> url \<Rightarrow> (py_exn + string) \<times> 'c) \<Rightarrow> 'c FeedMixer" where
  "init title' link' desc' feeds' num_keep' max_threads' max_feeds' cache' cache_get' =
     \<lparr>title = title', link = link', desc = desc', max_feeds = max_feeds',
      self_feeds = py_slice_to feeds' max_feeds', self_num_keep = num_keep',
      max_threads = max_threads', self_mixed_entries = [], self_error_urls = Map.empty,
      cache_get = cache_get', cache = cache'\<rparr>"

definition num_keep :: "'c FeedMixer \<Rightarrow> int" where
  "num_keep self = self_num_keep self"

definition error_urls :: "'c FeedMixer \<Rightarrow> (url \<rightharpoonup> py_exn)" where
  "error_urls self = self_error_urls self"

definition feeds :: "'c FeedMixer \<Rightarrow> url list" where
  "feeds self = self_feeds self"

text \<open>The setter of \<open>feeds\<close> (lines 161-167).\<close>

definition set_feeds :: "url list \<Rightarrow> 'c FeedMixer \<Rightarrow> 'c FeedMixer" where
  "set_feeds v self =
     self\<lparr>self_feeds := py_slice_to v (max_feeds self), self_mixed_entries := []\<rparr>"

text \<open>The setter of \<open>num_keep\<close> (lines 129-132): it assigns \<open>feeds\<close> to itself.\<close>

definition set_num_keep :: "int \<Rightarrow> 'c FeedMixer \<Rightarrow> 'c FeedMixer" where
  "set_num_keep v self =
     (let self1 = self\<lparr>self_num_keep := v\<rparr> in set_feeds (self_feeds self1) self1)"

text \<open>A plain attribute assignment \<^verbatim>\<open>fm.title = v\<close>.\<close>

definition set_title :: "string \<Rightarrow> 'c FeedMixer \<Rightarrow> 'c FeedMixer" where
  "set_title v self = self\<lparr>title := v\<rparr>"

section \<open>The pipeline: fetch_entries (lines 196-246)\<close>

text \<open>
  What the module calls but does not define: the parser, the order in which
  \<^verbatim>\<open>concurrent.futures.as_completed\<close> yields the submitted futures, and the three
  serialisers.
\<close>

datatype gen_cls = Atom1Feed | Rss201rev2Feed

record SyndicationFeed =
  sf_cls :: gen_cls
  sf_title :: string
  sf_link :: string
  sf_description :: string
  sf_items :: "metadata list"

record env =
  feedparser_parse :: "string \<Rightarrow> parsed_feed"
  as_completed :: "future list \<Rightarrow> future list"
  writeString :: "SyndicationFeed \<Rightarrow> string"
  json_dumps :: "metadata list \<Rightarrow> string"

text \<open>
  \<^verbatim>\<open>exec.submit(self.cache_get, self.cache, url) for url in self.feeds\<close>: one call per
  configured URL (a URL listed twice is requested twice), each future paired with its
  URL.  The calls are taken in the order of submission.
\<close>

fun submit_all ::
  "('c \<Rightarrow> url \<Rightarrow> (py_exn + string) \<times> 'c) \<Rightarrow> 'c \<Rightarrow> url list \<Rightarrow> future list \<times> 'c" where
  "submit_all cg c [] = ([], c)"
| "submit_all cg c (u # us) =
     (case cg c u of
        (r, c1) \<Rightarrow> (case submit_all cg c1 us of (futs, c2) \<Rightarrow> ((u, r) # futs, c2)))"

text \<open>Line 215: zero entries together with the bozo flag.\<close>

definition parse_err :: "parsed_feed \<Rightarrow> bool" where
  "parse_err f = (length (f_entries f) = 0 \<and> f_bozo f)"

text \<open>
  The body of the \<^verbatim>\<open>try\<close> (lines 211-235) for one future: the entries it adds to
  \<^verbatim>\<open>parsed_entries\<close>, or the exception it raises.
\<close>

definition try_source :: "(string \<Rightarrow> parsed_feed) \<Rightarrow> int \<Rightarrow> py_exn + string \<Rightarrow> py_exn + parsed_entry list" where
  "try_source parse nk res =
     (case res of
        Inl x \<Rightarrow> Inl x
      | Inr resp_text \<Rightarrow>
          (let f = parse resp_text in
           if parse_err f then Inl (ParseError (''Parse error: '' @ f_bozo_exception f))
           else Inr (use_feed_author f (select_newest nk f))))"

text \<open>\<^verbatim>\<open>except (ParseError, RequestException)\<close>.\<close>

fun caught :: "py_exn \<Rightarrow> bool" where
  "caught (ParseError m) = True"
| "caught (RequestException m) = True"
| "caught x = False"

text \<open>
  The loop over the completed futures (lines 208-239).  A caught exception is stored
  under the URL; any other exception leaves the loop, with the error map as it stands.
\<close>

fun collect ::
  "(string \<Rightarrow> parsed_feed) \<Rightarrow> int \<Rightarrow> future list \<Rightarrow> parsed_entry list \<Rightarrow> (url \<rightharpoonup> py_exn) \<Rightarrow>
   (py_exn + parsed_entry list) \<times> (url \<rightharpoonup> py_exn)" where
  "collect parse nk [] parsed_entries errs = (Inr parsed_entries, errs)"
| "collect parse nk ((u, res) # futs) parsed_entries errs =
     (case try_source parse nk res of
        Inr newest \<Rightarrow> collect parse nk futs (parsed_entries @ newest) errs
      | Inl x \<Rightarrow>
          if caught x then collect parse nk futs parsed_entries (errs(u \<mapsto> x))
          else (Inl x, errs))"

definition fetch_entries :: "env \<Rightarrow> 'c FeedMixer \<Rightarrow> (py_exn + unit) \<times> 'c FeedMixer" where
  "fetch_entries ev self =
     (let self1 = self\<lparr>self_error_urls := Map.empty\<rparr> in
      if max_threads self1 \<le> 0
      then (Inl (ValueError ''max_workers must be greater than 0''), self1)
      else
        (case submit_all (cache_get self1) (cache self1) (feeds self1) of
           (futs, c) \<Rightarrow>
             (case collect (feedparser_parse ev) (self_num_keep self1) (as_completed ev futs)
                     [] Map.empty of
                (r, errs) \<Rightarrow>
                  (let self2 = self1\<lparr>self_error_urls := errs, cache := c\<rparr> in
                   case r of
                     Inl x \<Rightarrow> (Inl x, self2)
                   | Inr parsed_entries \<Rightarrow>
                       (case sort_by_published parsed_entries of
                          Inl x \<Rightarrow> (Inl x, self2)
                        | Inr sorted_entries \<Rightarrow>
                            (case extract_meta sorted_entries of
                               Inl x \<Rightarrow> (Inl x, self2)
                             | Inr mixed \<Rightarrow>
                                 (Inr (), self2\<lparr>self_mixed_entries := mixed\<rparr>)))))))"

text \<open>The property \<open>mixed_entries\<close> (lines 134-143).\<close>

definition mixed_entries :: "env \<Rightarrow> 'c FeedMixer \<Rightarrow> (py_exn + metadata list) \<times> 'c FeedMixer" where
  "mixed_entries ev self =
     (if length (self_mixed_entries self) < 1
      then (case fetch_entries ev self of
              (Inl x, self1) \<Rightarrow> (Inl x, self1)
            | (Inr u, self1) \<Rightarrow> (Inr (self_mixed_entries self1), self1))
      else (Inr (self_mixed_entries self), self))"

text \<open>The render operations (lines 169-194 and 298-306).\<close>

definition generate_feed ::
  "env \<Rightarrow> gen_cls \<Rightarrow> 'c FeedMixer \<Rightarrow> (py_exn + SyndicationFeed) \<times> 'c FeedMixer" where
  "generate_feed ev cls self =
     (case mixed_entries ev self of
        (Inl x, self1) \<Rightarrow> (Inl x, self1)
      | (Inr es, self1) \<Rightarrow>
          (Inr \<lparr>sf_cls = cls, sf_title = title self, sf_link = link self,
                sf_description = desc self, sf_items = es\<rparr>, self1))"

definition render_feed :: "env \<Rightarrow> gen_cls \<Rightarrow> 'c FeedMixer \<Rightarrow> (py_exn + string) \<times> 'c FeedMixer" where
  "render_feed ev cls self =
     (case generate_feed ev cls self of
        (Inl x, self1) \<Rightarrow> (Inl x, self1)
      | (Inr gen, self1) \<Rightarrow> (Inr (writeString ev gen), self1))"

definition atom_feed :: "env \<Rightarrow> 'c FeedMixer \<Rightarrow> (py_exn + string) \<times> 'c FeedMixer" where
  "atom_feed ev self = render_feed ev Atom1Feed self"

definition rss_feed :: "env \<Rightarrow> 'c FeedMixer \<Rightarrow> (py_exn + string) \<times> 'c FeedMixer" where
  "rss_feed ev self = render_feed ev Rss201rev2Feed self"

definition json_feed :: "env \<Rightarrow> 'c FeedMixer \<Rightarrow> (py_exn + string) \<times> 'c FeedMixer" where
  "json_feed ev self =
     (case mixed_entries ev self of
        (Inl x, self1) \<Rightarrow> (Inl x, self1)
      | (Inr es, self1) \<Rightarrow> (Inr (json_dumps ev es), self1))"

section \<open>Conditions on the inputs, and a concrete run\<close>

text \<open>
  The entries on which the conversions of extract_meta are defined: each calendar tuple
  present is in the range of \<^verbatim>\<open>datetime\<close> once its seconds are clamped, and each
  enclosure carries the three attributes that are read.
\<close>

definition time_ok :: "struct_time \<Rightarrow> bool" where
  "time_ok tp =
     datetime_in_range (tm_year tp) (tm_mon tp) (tm_mday tp) (tm_hour tp) (tm_min tp)
       (min (tm_sec tp) 59)"

definition enclosure_complete :: "enclosure_link \<Rightarrow> bool" where
  "enclosure_complete enc =
     (enc_href enc \<noteq> None \<and> enc_length enc \<noteq> None \<and> enc_type enc \<noteq> None)"

definition normalisable :: "parsed_entry \<Rightarrow> bool" where
  "normalisable e =
     ((case e_published_parsed e of None \<Rightarrow> True | Some tp \<Rightarrow> time_ok tp) \<and>
      (case e_updated_parsed e of None \<Rightarrow> True | Some tu \<Rightarrow> time_ok tu) \<and>
      (case e_enclosures e of None \<Rightarrow> True | Some encs \<Rightarrow> list_all enclosure_complete encs))"


text \<open>
  "The first n entries of E, all of E when E has fewer than n", as a count of entries.
\<close>

definition first_entries :: "int \<Rightarrow> 'a list \<Rightarrow> 'a list" where
  "first_entries n E = take (nat n) E"

text \<open>
  A list of normalised records is in non-increasing order of publication time when each
  record's \<open>pubdate\<close> is at least that of its successor.
\<close>

definition pubdate_ge :: "metadata \<Rightarrow> metadata \<Rightarrow> bool" where
  "pubdate_ge a b =
     (case (m_pubdate a, m_pubdate b) of
        (Some x, Some y) \<Rightarrow> datetime_le y x
      | other \<Rightarrow> True)"

definition pubdate_nonincreasing :: "metadata list \<Rightarrow> bool" where
  "pubdate_nonincreasing ms = successively pubdate_ge ms"

text \<open>
  A run on two sources.  The first is an RSS feed of two items dated, as RSS dates are
  written, "Fri, 05 Jan 2024" and "Mon, 01 Jan 2024", most recent first; the feed names an
  author and the second item has its own.  The second source cannot be reached.  The cache
  counts the requests made through it.
\<close>

definition blank_entry :: parsed_entry where
  "blank_entry =
     \<lparr>e_title = None, e_link = None, e_description = None, e_author_detail = None,
      e_published = None, e_published_parsed = None, e_updated_parsed = None,
      e_comments = None, e_id = None, e_license = None, e_tags = None,
      e_enclosures = None\<rparr>"

definition demo_time :: "int \<Rightarrow> int \<Rightarrow> int \<Rightarrow> int \<Rightarrow> struct_time" where
  "demo_time d wday yday s =
     \<lparr>tm_year = 2024, tm_mon = 1, tm_mday = d, tm_hour = 0, tm_min = 0, tm_sec = s,
      tm_wday = wday, tm_yday = yday, tm_isdst = 0\<rparr>"

definition ann :: author_detail where
  "ann = \<lparr>a_email = None, a_name = Some ''Ann'', a_href = None\<rparr>"

definition bob :: author_detail where
  "bob = \<lparr>a_email = Some ''bob@example.org'', a_name = Some ''Bob'', a_href = None\<rparr>"

definition entry_jan5 :: parsed_entry where
  "entry_jan5 =
     blank_entry\<lparr>e_title := Some ''Second post'',
                 e_published := Some ''Fri, 05 Jan 2024 00:00:00 GMT'',
                 e_published_parsed := Some (demo_time 5 4 5 0)\<rparr>"

definition entry_jan1 :: parsed_entry where
  "entry_jan1 =
     blank_entry\<lparr>e_title := Some ''First post'',
                 e_author_detail := Some bob,
                 e_published := Some ''Mon, 01 Jan 2024 00:00:00 GMT'',
                 e_published_parsed := Some (demo_time 1 0 1 0)\<rparr>"

definition entry_dec31 :: parsed_entry where
  "entry_dec31 =
     blank_entry\<lparr>e_title := Some ''Old post'',
                 e_published := Some ''2023-12-31T23:59:60Z'',
                 e_published_parsed :=
                   Some \<lparr>tm_year = 2023, tm_mon = 12, tm_mday = 31, tm_hour = 23,
                         tm_min = 59, tm_sec = 60, tm_wday = 6, tm_yday = 365,
                         tm_isdst = 0\<rparr>\<rparr>"

definition demo_parsed :: parsed_feed where
  "demo_parsed =
     \<lparr>f_entries = [entry_jan5, entry_jan1], f_bozo = False, f_bozo_exception = ''None'',
      f_feed_author_detail = Some ann\<rparr>"

definition three_entries :: parsed_feed where
  "three_entries =
     \<lparr>f_entries = [entry_jan5, entry_jan1, entry_dec31], f_bozo = False,
      f_bozo_exception = ''None'', f_feed_author_detail = None\<rparr>"

definition not_a_feed :: parsed_feed where
  "not_a_feed =
     \<lparr>f_entries = [], f_bozo = True, f_bozo_exception = ''syntax error'',
      f_feed_author_detail = None\<rparr>"

text \<open>An entry without a 'published' value, as an Atom entry with only an update time.\<close>

definition entry_updated_only :: parsed_entry where
  "entry_updated_only =
     blank_entry\<lparr>e_title := Some ''Atom post'',
                 e_updated_parsed := Some (demo_time 2 1 2 0)\<rparr>"

definition atom_parsed :: parsed_feed where
  "atom_parsed =
     \<lparr>f_entries = [entry_updated_only], f_bozo = False, f_bozo_exception = ''None'',
      f_feed_author_detail = None\<rparr>"

definition empty_feed :: parsed_feed where
  "empty_feed =
     \<lparr>f_entries = [], f_bozo = False, f_bozo_exception = ''None'',
      f_feed_author_detail = None\<rparr>"

definition demo_parse :: "string \<Rightarrow> parsed_feed" where
  "demo_parse resp_text =
     (if resp_text = ''rss'' then demo_parsed
      else if resp_text = ''empty'' then empty_feed
      else if resp_text = ''atom'' then atom_parsed
      else not_a_feed)"

definition demo_cache_get :: "nat \<Rightarrow> url \<Rightarrow> (py_exn + string) \<times> nat" where
  "demo_cache_get c u =
     (if u = ''http://a.example/rss'' then (Inr ''rss'', Suc c)
      else if u = ''http://c.example/html'' then (Inr ''html'', Suc c)
      else if u = ''http://d.example/empty'' then (Inr ''empty'', Suc c)
      else if u = ''http://e.example/atom'' then (Inr ''atom'', Suc c)
      else (Inl (RequestException ''timed out''), Suc c))"

definition demo_env :: env where
  "demo_env =
     \<lparr>feedparser_parse = demo_parse, as_completed = (\<lambda>futs. futs),
      writeString = (\<lambda>gen. sf_title gen), json_dumps = (\<lambda>ms. concat (map m_title ms))\<rparr>"

definition demo_mixer :: "nat FeedMixer" where
  "demo_mixer =
     init ''Title'' [] [] [''http://a.example/rss'', ''http://b.example/down''] 3 5 100 0
       demo_cache_get"

text \<open>The same object configured with sources that all fail.\<close>

definition failing_mixer :: "nat FeedMixer" where
  "failing_mixer =
     init ''Title'' [] [] [''http://b.example/down'', ''http://c.example/html''] 3 5 100 0
       demo_cache_get"

text \<open>An entry whose enclosure link gives no length, as Atom allows.\<close>

definition entry_podcast :: parsed_entry where
  "entry_podcast =
     blank_entry\<lparr>e_title := Some ''Episode 1'',
                 e_published := Some ''2024-01-05T00:00:00Z'',
                 e_published_parsed := Some (demo_time 5 4 5 0),
                 e_enclosures :=
                   Some [\<lparr>enc_href = Some ''http://a.example/ep1.mp3'', enc_length = None,
                          enc_type = Some ''audio/mpeg''\<rparr>]\<rparr>"

text \<open>One source that cannot be reached and one whose entry has no 'published' value.\<close>

definition atom_mixer :: "nat FeedMixer" where
  "atom_mixer =
     init ''Title'' [] [] [''http://b.example/down'', ''http://e.example/atom''] 3 5 100 0
       demo_cache_get"


text \<open>The records and the state that the run on \<open>demo_mixer\<close> produces.\<close>

definition record_jan1 :: metadata where
  "record_jan1 =
     \<lparr>m_title = ''First post'', m_link = [], m_description = [],
      m_author_email = Some (Some ''bob@example.org''), m_author_name = Some (Some ''Bob''),
      m_author_link = Some None,
      m_pubdate = Some \<lparr>dt_year = 2024, dt_month = 1, dt_day = 1, dt_hour = 0,
                         dt_minute = 0, dt_second = 0\<rparr>,
      m_updateddate = None, m_comments = None, m_unique_id = None,
      m_item_copyright = None, m_categories = None, m_enclosures = None\<rparr>"

definition record_jan5 :: metadata where
  "record_jan5 =
     \<lparr>m_title = ''Second post'', m_link = [], m_description = [],
      m_author_email = Some None, m_author_name = Some (Some ''Ann''),
      m_author_link = Some None,
      m_pubdate = Some \<lparr>dt_year = 2024, dt_month = 1, dt_day = 5, dt_hour = 0,
                         dt_minute = 0, dt_second = 0\<rparr>,
      m_updateddate = None, m_comments = None, m_unique_id = None,
      m_item_copyright = None, m_categories = None, m_enclosures = None\<rparr>"

definition populated_mixer :: "nat FeedMixer" where
  "populated_mixer =
     demo_mixer
       \<lparr>self_error_urls := [''http://b.example/down'' \<mapsto> RequestException ''timed out''],
        cache := 2, self_mixed_entries := [record_jan1, record_jan5]\<rparr>"

section \<open>Auxiliary facts\<close>

lemma backfill_author_map:
  "backfill_author a es =
     map (\<lambda>e. if e_author_detail e = None then e\<lparr>e_author_detail := Some a\<rparr> else e) es"
  by (induction es) simp_all

lemma convert_time_Inr_iff:
  "(\<exists>d. convert_time t = Inr d) \<longleftrightarrow> (case t of None \<Rightarrow> True | Some tp \<Rightarrow> time_ok tp)"
  by (simp add: convert_time_def to_datetime_def datetime_new_def time_ok_def
      split: option.splits)

lemma convert_time_value:
  "convert_time t = Inr d \<Longrightarrow>
     d = map_option (\<lambda>tp. \<lparr>dt_year = tm_year tp, dt_month = tm_mon tp, dt_day = tm_mday tp,
            dt_hour = tm_hour tp, dt_minute = tm_min tp, dt_second = min (tm_sec tp) 59\<rparr>) t"
  by (auto simp add: convert_time_def to_datetime_def datetime_new_def
      split: option.splits if_splits)

lemma new_Enclosure_Inr_iff:
  "(\<exists>c. new_Enclosure enc = Inr c) \<longleftrightarrow> enclosure_complete enc"
  by (auto simp add: new_Enclosure_def getattr_def enclosure_complete_def
      split: option.splits)

lemma enclist_loop_Inr_iff:
  "(\<exists>cs. enclist_loop acc encs = Inr cs) \<longleftrightarrow> list_all enclosure_complete encs"
proof (induction encs arbitrary: acc)
  case Nil
  show ?case by simp
next
  case (Cons enc encs)
  show ?case
  proof (cases "new_Enclosure enc")
    case (Inl x)
    with new_Enclosure_Inr_iff [of enc] show ?thesis by simp
  next
    case (Inr c)
    with new_Enclosure_Inr_iff [of enc] Cons.IH [of "acc @ [c]"] show ?thesis by simp
  qed
qed

lemma convert_enclosures_Inr_iff:
  "(\<exists>r. convert_enclosures v = Inr r) \<longleftrightarrow>
     (case v of None \<Rightarrow> True | Some encs \<Rightarrow> list_all enclosure_complete encs)"
proof (cases v)
  case None
  then show ?thesis by (simp add: convert_enclosures_def)
next
  case (Some encs)
  show ?thesis
  proof (cases "enclist_loop [] encs")
    case (Inl x)
    with Some enclist_loop_Inr_iff [of "[]" encs] show ?thesis
      by (simp add: convert_enclosures_def)
  next
    case (Inr cs)
    with Some enclist_loop_Inr_iff [of "[]" encs] show ?thesis
      by (simp add: convert_enclosures_def)
  qed
qed

lemma extract_meta_entry_Inr_iff:
  "(\<exists>m. extract_meta_entry e = Inr m) \<longleftrightarrow> normalisable e"
  using convert_time_Inr_iff [of "e_published_parsed e"]
    convert_time_Inr_iff [of "e_updated_parsed e"]
    convert_enclosures_Inr_iff [of "e_enclosures e"]
  by (auto simp add: extract_meta_entry_def normalisable_def split: sum.splits)

lemma extract_meta_loop_Inr_iff:
  "extract_meta_loop acc es = Inr ms \<longleftrightarrow>
     (\<exists>ms1. ms = acc @ ms1 \<and> list_all2 (\<lambda>e m. extract_meta_entry e = Inr m) es ms1)"
proof (induction es arbitrary: acc)
  case Nil
  show ?case by auto
next
  case (Cons e es)
  show ?case
  proof (cases "extract_meta_entry e")
    case (Inl x)
    then show ?thesis by (auto simp add: list_all2_Cons1)
  next
    case (Inr m)
    with Cons.IH [of "acc @ [m]"] show ?thesis
      by (auto simp add: list_all2_Cons1)
  qed
qed

lemma extract_meta_Inr_iff:
  "extract_meta es = Inr ms \<longleftrightarrow> list_all2 (\<lambda>e m. extract_meta_entry e = Inr m) es ms"
  by (simp add: extract_meta_def extract_meta_loop_Inr_iff)

lemma extract_meta_returns_iff:
  "(\<exists>ms. extract_meta es = Inr ms) \<longleftrightarrow> list_all normalisable es"
proof (induction es)
  case Nil
  show ?case by (simp add: extract_meta_Inr_iff)
next
  case (Cons e es)
  then show ?case
    using extract_meta_entry_Inr_iff [of e]
    by (simp add: extract_meta_Inr_iff list_all2_Cons1)
qed

lemma extract_meta_entry_fields:
  assumes "extract_meta_entry e = Inr m"
  shows "m_title m = get_default (e_title e) \<and>
         m_link m = get_default (e_link e) \<and>
         m_description m = get_default (e_description e) \<and>
         m_author_email m = map_option a_email (e_author_detail e) \<and>
         m_author_name m = map_option a_name (e_author_detail e) \<and>
         m_author_link m = map_option a_href (e_author_detail e) \<and>
         convert_time (e_published_parsed e) = Inr (m_pubdate m) \<and>
         convert_time (e_updated_parsed e) = Inr (m_updateddate m)"
  using assms by (auto simp add: extract_meta_entry_def split: sum.splits)

lemma entry_dec31_normalisable: "normalisable entry_dec31"
  by (simp add: normalisable_def entry_dec31_def blank_entry_def time_ok_def
      datetime_in_range_def days_in_month_def)

lemma entry_jan1_normalisable: "normalisable entry_jan1"
  by (simp add: normalisable_def entry_jan1_def blank_entry_def time_ok_def demo_time_def
      datetime_in_range_def days_in_month_def)

lemma entry_jan5_normalisable: "normalisable entry_jan5"
  by (simp add: normalisable_def entry_jan5_def blank_entry_def time_ok_def demo_time_def
      datetime_in_range_def days_in_month_def)

lemma demo_submit:
  "submit_all demo_cache_get 0 [''http://a.example/rss'', ''http://b.example/down''] =
     ([(''http://a.example/rss'', Inr ''rss''),
       (''http://b.example/down'', Inl (RequestException ''timed out''))], 2)"
  by (simp add: demo_cache_get_def)

lemma demo_try_source:
  "try_source demo_parse 3 (Inr ''rss'') =
     Inr [entry_jan5\<lparr>e_author_detail := Some ann\<rparr>, entry_jan1]"
  by (simp add: try_source_def demo_parse_def demo_parsed_def parse_err_def select_newest_def
      py_slice_to_def use_feed_author_def entry_jan5_def entry_jan1_def blank_entry_def)

lemma demo_collect:
  "collect demo_parse 3
     [(''http://a.example/rss'', Inr ''rss''),
      (''http://b.example/down'', Inl (RequestException ''timed out''))] [] Map.empty =
   (Inr [entry_jan5\<lparr>e_author_detail := Some ann\<rparr>, entry_jan1],
    [''http://b.example/down'' \<mapsto> RequestException ''timed out''])"
  by (simp add: demo_try_source) (simp add: try_source_def)

lemma demo_sort:
  "sort_by_published [entry_jan5\<lparr>e_author_detail := Some ann\<rparr>, entry_jan1] =
     Inr [entry_jan1, entry_jan5\<lparr>e_author_detail := Some ann\<rparr>]"
  by (simp add: sort_by_published_def published_key_def sort_reverse_def entry_jan5_def
      entry_jan1_def blank_entry_def)

lemma demo_extract:
  "extract_meta [entry_jan1, entry_jan5\<lparr>e_author_detail := Some ann\<rparr>] =
     Inr [record_jan1, record_jan5]"
  by (simp add: extract_meta_def extract_meta_entry_def entry_jan5_def entry_jan1_def
      blank_entry_def convert_time_def to_datetime_def datetime_new_def datetime_in_range_def
      days_in_month_def demo_time_def convert_enclosures_def get_default_def ann_def bob_def
      record_jan1_def record_jan5_def)

lemma demo_fetch:
  "fetch_entries demo_env demo_mixer = (Inr (), populated_mixer)"
  by (simp add: fetch_entries_def demo_mixer_def init_def py_slice_to_def feeds_def
      demo_env_def demo_submit demo_collect demo_sort demo_extract Let_def populated_mixer_def
      del: submit_all.simps collect.simps)

lemma demo_mixed:
  "mixed_entries demo_env demo_mixer = (Inr [record_jan1, record_jan5], populated_mixer)"
  by (simp add: mixed_entries_def demo_fetch)
    (simp add: demo_mixer_def init_def populated_mixer_def)

lemma failing_fetch:
  "fetch_entries demo_env (failing_mixer\<lparr>cache := c, self_error_urls := e\<rparr>) =
     (Inr (),
      failing_mixer
        \<lparr>cache := Suc (Suc c),
         self_error_urls :=
           [''http://b.example/down'' \<mapsto> RequestException ''timed out'',
            ''http://c.example/html'' \<mapsto> ParseError ''Parse error: syntax error'']\<rparr>)"
  by (simp add: fetch_entries_def failing_mixer_def init_def py_slice_to_def feeds_def
      demo_env_def demo_cache_get_def try_source_def demo_parse_def not_a_feed_def
      parse_err_def sort_by_published_def sort_reverse_def extract_meta_def Let_def)

lemma failing_mixed:
  "mixed_entries demo_env (failing_mixer\<lparr>cache := c, self_error_urls := e\<rparr>) =
     (Inr [],
      failing_mixer
        \<lparr>cache := Suc (Suc c),
         self_error_urls :=
           [''http://b.example/down'' \<mapsto> RequestException ''timed out'',
            ''http://c.example/html'' \<mapsto> ParseError ''Parse error: syntax error'']\<rparr>)"
proof -
  have "self_mixed_entries (failing_mixer\<lparr>cache := c, self_error_urls := e\<rparr>) = []"
    by (simp add: failing_mixer_def init_def)
  then show ?thesis
    by (simp add: mixed_entries_def failing_fetch)
qed

lemma failing_mixer_start:
  "failing_mixer = failing_mixer\<lparr>cache := 0, self_error_urls := Map.empty\<rparr>"
  by (simp add: failing_mixer_def init_def)


lemma atom_run:
  "mixed_entries demo_env atom_mixer =
     (Inl (KeyError ''published''),
      atom_mixer\<lparr>self_error_urls := [''http://b.example/down'' \<mapsto> RequestException ''timed out''],
                 cache := 2\<rparr>)"
  by (simp add: mixed_entries_def fetch_entries_def atom_mixer_def init_def py_slice_to_def
      feeds_def demo_env_def demo_cache_get_def try_source_def demo_parse_def atom_parsed_def
      parse_err_def select_newest_def use_feed_author_def sort_by_published_def
      published_key_def entry_updated_only_def blank_entry_def Let_def)


lemma try_source_fetched_iff:
  "isl (try_source parse nk (Inr t)) \<longleftrightarrow> (f_entries (parse t) = [] \<and> f_bozo (parse t))"
  by (simp add: try_source_def parse_err_def Let_def)








section \<open>Selection (C6, C10)\<close>

text \<open>
  C6, as the code has it.  With the sentinel -1 every entry of the source is kept; with a
  keep-count \<open>nk \<ge> 0\<close> exactly the first \<open>nk\<close> entries are kept, all of them when the
  source has no more than \<open>nk\<close>; and whatever the keep-count, what is kept is a prefix
  of the parser's sequence, so the order within a source is the parser's.
\<close>

theorem select_newest_keeps_first:
  "(nk = -1 \<longrightarrow> select_newest nk f = f_entries f) \<and>
   (0 \<le> nk \<longrightarrow>
      select_newest nk f = take (nat nk) (f_entries f) \<and>
      length (select_newest nk f) = min (nat nk) (length (f_entries f)) \<and>
      (length (f_entries f) \<le> nat nk \<longrightarrow> select_newest nk f = f_entries f)) \<and>
   (\<exists>rest. f_entries f = select_newest nk f @ rest)"
proof -
  have "\<exists>rest. f_entries f = select_newest nk f @ rest"
  proof (cases "nk = -1")
    case True
    then show ?thesis by (simp add: select_newest_def)
  next
    case False
    then have "select_newest nk f @
        (if nk < 0 then drop (nat (int (length (f_entries f)) + nk)) (f_entries f)
         else drop (nat nk) (f_entries f)) = f_entries f"
      by (simp add: select_newest_def py_slice_to_def)
    then show ?thesis by metis
  qed
  then show ?thesis
    by (auto simp add: select_newest_def py_slice_to_def)
qed

theorem select_newest_keeps_first_witness:
  "(0::int) \<le> 2 \<and> select_newest 2 three_entries = [entry_jan5, entry_jan1] \<and>
   select_newest (-1) three_entries = [entry_jan5, entry_jan1, entry_dec31] \<and>
   select_newest 5 three_entries = [entry_jan5, entry_jan1, entry_dec31]"
  using select_newest_keeps_first [of 2 three_entries]
    select_newest_keeps_first [of "-1" three_entries]
    select_newest_keeps_first [of 5 three_entries]
  by (simp add: three_entries_def)

text \<open>
  C6 as stated covers every keep-count other than -1.  At -2 a source of three entries
  keeps one entry, which is not "the first -2 entries" under any count of entries.
\<close>

theorem select_newest_negative_counterexample:
  "select_newest (-2) three_entries = [entry_jan5] \<and>
   select_newest (-2) three_entries \<noteq> first_entries (-2) (f_entries three_entries)"
  by (simp add: select_newest_def py_slice_to_def first_entries_def three_entries_def)

text \<open>
  C10.  For a keep-count below -1 the selection is the slice \<^verbatim>\<open>f.entries[0:num_keep]\<close>:
  every entry of the source except the last \<open>|num_keep|\<close>, in the parser's order; the
  value is neither the unlimited sentinel (something is dropped as soon as the source has
  an entry) nor rejected.
\<close>

theorem select_newest_below_sentinel:
  assumes "nk < -1"
  shows "select_newest nk f = py_slice_to (f_entries f) nk \<and>
         select_newest nk f = rev (drop (nat (- nk)) (rev (f_entries f))) \<and>
         length (select_newest nk f) = length (f_entries f) - nat (- nk) \<and>
         (f_entries f \<noteq> [] \<longrightarrow> select_newest nk f \<noteq> f_entries f)"
proof -
  from assms have nk: "nk \<noteq> -1" "nk < 0" by simp_all
  have n: "nat (int (length (f_entries f)) + nk) = length (f_entries f) - nat (- nk)"
    using nk(2) by simp
  have a: "select_newest nk f = py_slice_to (f_entries f) nk"
    using nk(1) by (simp add: select_newest_def)
  have b: "select_newest nk f = rev (drop (nat (- nk)) (rev (f_entries f)))"
    using nk n by (simp add: select_newest_def py_slice_to_def rev_drop)
  have c: "length (select_newest nk f) = length (f_entries f) - nat (- nk)"
    using nk n by (simp add: select_newest_def py_slice_to_def)
  have d: "select_newest nk f \<noteq> f_entries f" if "f_entries f \<noteq> []"
  proof
    assume "select_newest nk f = f_entries f"
    with c have "length (f_entries f) = length (f_entries f) - nat (- nk)" by simp
    moreover from that have "0 < length (f_entries f)" by simp
    moreover from assms have "0 < nat (- nk)" by simp
    ultimately show False by arith
  qed
  from a b c d show ?thesis by blast
qed

theorem select_newest_below_sentinel_witness:
  "(-2::int) < -1 \<and> select_newest (-2) three_entries = [entry_jan5] \<and>
   length (select_newest (-2) three_entries) = 1"
  using select_newest_below_sentinel [of "-2" three_entries]
  by (simp add: three_entries_def py_slice_to_def)

section \<open>The feed-level author (C7)\<close>

text \<open>
  C7.  For a source that parsed, the entries handed to the merge are the kept entries, one
  for one.  When the feed has an author, a kept entry without an author detail receives
  the feed's and is otherwise unchanged, and a kept entry with an author detail is passed
  on as it is; when the feed has no author, every kept entry is passed on as it is.
\<close>

theorem feed_author_backfill:
  assumes "\<not> parse_err (parse t)" and "i < length (select_newest nk (parse t))"
  shows "\<exists>es. try_source parse nk (Inr t) = Inr es \<and>
           length es = length (select_newest nk (parse t)) \<and>
           (case f_feed_author_detail (parse t) of
              None \<Rightarrow> es ! i = select_newest nk (parse t) ! i
            | Some a \<Rightarrow>
                (e_author_detail (select_newest nk (parse t) ! i) = None \<longrightarrow>
                   es ! i = (select_newest nk (parse t) ! i)\<lparr>e_author_detail := Some a\<rparr>) \<and>
                (e_author_detail (select_newest nk (parse t) ! i) \<noteq> None \<longrightarrow>
                   es ! i = select_newest nk (parse t) ! i))"
proof (cases "f_feed_author_detail (parse t)")
  case None
  with assms show ?thesis
    by (simp add: try_source_def use_feed_author_def)
next
  case (Some a)
  with assms show ?thesis
    by (simp add: try_source_def use_feed_author_def backfill_author_map)
qed

theorem feed_author_backfill_witness:
  "\<not> parse_err (demo_parse ''rss'') \<and>
   try_source demo_parse 3 (Inr ''rss'') =
     Inr [entry_jan5\<lparr>e_author_detail := Some ann\<rparr>, entry_jan1] \<and>
   e_author_detail entry_jan1 = Some bob"
proof -
  have a: "\<not> parse_err (demo_parse ''rss'')"
    by (simp add: parse_err_def demo_parse_def demo_parsed_def)
  have s: "select_newest 3 (demo_parse ''rss'') = [entry_jan5, entry_jan1]"
    by (simp add: select_newest_def py_slice_to_def demo_parse_def demo_parsed_def)
  have e: "e_author_detail entry_jan5 = None" "e_author_detail entry_jan1 = Some bob"
    by (simp_all add: entry_jan5_def entry_jan1_def blank_entry_def)
  have f: "f_feed_author_detail (demo_parse ''rss'') = Some ann"
    by (simp add: demo_parse_def demo_parsed_def)
  from feed_author_backfill [of demo_parse "''rss''" 0 3, OF a] s e f
  obtain es where es: "try_source demo_parse 3 (Inr ''rss'') = Inr es" "length es = 2"
    "es ! 0 = entry_jan5\<lparr>e_author_detail := Some ann\<rparr>"
    by auto
  from feed_author_backfill [of demo_parse "''rss''" 1 3, OF a] s e f es(1)
  have "es ! 1 = entry_jan1" by auto
  with es have "es = [entry_jan5\<lparr>e_author_detail := Some ann\<rparr>, entry_jan1]"
    by (cases es; cases "tl es") auto
  with es a e show ?thesis by simp
qed

section \<open>Invalidation by the setters (C4)\<close>

text \<open>
  C4.  Assigning \<open>feeds\<close> or \<open>num_keep\<close> empties the stored merged entries, so that the
  next access to \<open>mixed_entries\<close> is a run of the pipeline; assigning \<open>title\<close> leaves the
  stored entries as they are.  None of the three assignments touches the cache (no
  request is made) or the error map.
\<close>

theorem setters_reset_merged_entries:
  "self_mixed_entries (set_feeds v self) = [] \<and>
   self_mixed_entries (set_num_keep n self) = [] \<and>
   self_mixed_entries (set_title t self) = self_mixed_entries self \<and>
   cache (set_feeds v self) = cache self \<and>
   cache (set_num_keep n self) = cache self \<and>
   cache (set_title t self) = cache self \<and>
   self_error_urls (set_feeds v self) = self_error_urls self \<and>
   self_error_urls (set_num_keep n self) = self_error_urls self \<and>
   self_error_urls (set_title t self) = self_error_urls self \<and>
   feeds (set_feeds v self) = py_slice_to v (max_feeds self) \<and>
   num_keep (set_num_keep n self) = n \<and>
   title (set_title t self) = t \<and>
   mixed_entries ev (set_feeds v self) =
     (case fetch_entries ev (set_feeds v self) of
        (Inl x, self1) \<Rightarrow> (Inl x, self1)
      | (Inr u, self1) \<Rightarrow> (Inr (self_mixed_entries self1), self1)) \<and>
   mixed_entries ev (set_num_keep n self) =
     (case fetch_entries ev (set_num_keep n self) of
        (Inl x, self1) \<Rightarrow> (Inl x, self1)
      | (Inr u, self1) \<Rightarrow> (Inr (self_mixed_entries self1), self1))"
  by (simp add: set_feeds_def set_num_keep_def set_title_def feeds_def num_keep_def
      mixed_entries_def)

section \<open>Parse failures (C5)\<close>



section \<open>Normalisation (C8, C9)\<close>

text \<open>
  C8.  extract_meta returns on every list of normalisable entries, and whenever it
  returns it returns one record per entry, in order, in which: title, link and
  description are the entry's values, or the empty string for an absent one; the three
  author keys are absent when the entry has no author detail and are the author's email,
  name and href when it has one; pubdate and updateddate are absent when the entry has no
  such calendar tuple and are otherwise the datetime of its first five fields and its
  seconds, with seconds of 60 or more replaced by 59.
\<close>

theorem extract_meta_fields:
  assumes "i < length es"
  shows "(list_all normalisable es \<longrightarrow> (\<exists>ms. extract_meta es = Inr ms)) \<and>
         (\<forall>ms. extract_meta es = Inr ms \<longrightarrow>
            length ms = length es \<and>
            m_title (ms ! i) = (case e_title (es ! i) of None \<Rightarrow> [] | Some v \<Rightarrow> v) \<and>
            m_link (ms ! i) = (case e_link (es ! i) of None \<Rightarrow> [] | Some v \<Rightarrow> v) \<and>
            m_description (ms ! i) =
              (case e_description (es ! i) of None \<Rightarrow> [] | Some v \<Rightarrow> v) \<and>
            (case e_author_detail (es ! i) of
               None \<Rightarrow>
                 m_author_email (ms ! i) = None \<and> m_author_name (ms ! i) = None \<and>
                 m_author_link (ms ! i) = None
             | Some a \<Rightarrow>
                 m_author_email (ms ! i) = Some (a_email a) \<and>
                 m_author_name (ms ! i) = Some (a_name a) \<and>
                 m_author_link (ms ! i) = Some (a_href a)) \<and>
            (case e_published_parsed (es ! i) of
               None \<Rightarrow> m_pubdate (ms ! i) = None
             | Some tp \<Rightarrow>
                 m_pubdate (ms ! i) =
                   Some \<lparr>dt_year = tm_year tp, dt_month = tm_mon tp, dt_day = tm_mday tp,
                         dt_hour = tm_hour tp, dt_minute = tm_min tp,
                         dt_second = (if 60 \<le> tm_sec tp then 59 else tm_sec tp)\<rparr>) \<and>
            (case e_updated_parsed (es ! i) of
               None \<Rightarrow> m_updateddate (ms ! i) = None
             | Some tu \<Rightarrow>
                 m_updateddate (ms ! i) =
                   Some \<lparr>dt_year = tm_year tu, dt_month = tm_mon tu, dt_day = tm_mday tu,
                         dt_hour = tm_hour tu, dt_minute = tm_min tu,
                         dt_second = (if 60 \<le> tm_sec tu then 59 else tm_sec tu)\<rparr>))"
proof (intro conjI allI impI)
  assume "list_all normalisable es"
  then show "\<exists>ms. extract_meta es = Inr ms" by (simp add: extract_meta_returns_iff)
next
  fix ms
  assume r: "extract_meta es = Inr ms"
  then have l2: "list_all2 (\<lambda>e m. extract_meta_entry e = Inr m) es ms"
    by (simp add: extract_meta_Inr_iff)
  then show len: "length ms = length es" by (simp add: list_all2_lengthD)
  from list_all2_nthD [OF l2 assms] have m: "extract_meta_entry (es ! i) = Inr (ms ! i)" .
  note f = extract_meta_entry_fields [OF m]
  from f have pd: "convert_time (e_published_parsed (es ! i)) = Inr (m_pubdate (ms ! i))"
    and ud: "convert_time (e_updated_parsed (es ! i)) = Inr (m_updateddate (ms ! i))"
    by simp_all
  have clamp: "min s 59 = (if 60 \<le> s then 59 else s)" for s :: int by simp
  show "m_title (ms ! i) = (case e_title (es ! i) of None \<Rightarrow> [] | Some v \<Rightarrow> v)"
    using f by (simp add: get_default_def)
  show "m_link (ms ! i) = (case e_link (es ! i) of None \<Rightarrow> [] | Some v \<Rightarrow> v)"
    using f by (simp add: get_default_def)
  show "m_description (ms ! i) = (case e_description (es ! i) of None \<Rightarrow> [] | Some v \<Rightarrow> v)"
    using f by (simp add: get_default_def)
  show "case e_author_detail (es ! i) of
          None \<Rightarrow>
            m_author_email (ms ! i) = None \<and> m_author_name (ms ! i) = None \<and>
            m_author_link (ms ! i) = None
        | Some a \<Rightarrow>
            m_author_email (ms ! i) = Some (a_email a) \<and>
            m_author_name (ms ! i) = Some (a_name a) \<and>
            m_author_link (ms ! i) = Some (a_href a)"
    using f by (simp split: option.splits)
  show "case e_published_parsed (es ! i) of
          None \<Rightarrow> m_pubdate (ms ! i) = None
        | Some tp \<Rightarrow>
            m_pubdate (ms ! i) =
              Some \<lparr>dt_year = tm_year tp, dt_month = tm_mon tp, dt_day = tm_mday tp,
                    dt_hour = tm_hour tp, dt_minute = tm_min tp,
                    dt_second = (if 60 \<le> tm_sec tp then 59 else tm_sec tp)\<rparr>"
    using convert_time_value [OF pd] by (simp add: clamp split: option.splits)
  show "case e_updated_parsed (es ! i) of
          None \<Rightarrow> m_updateddate (ms ! i) = None
        | Some tu \<Rightarrow>
            m_updateddate (ms ! i) =
              Some \<lparr>dt_year = tm_year tu, dt_month = tm_mon tu, dt_day = tm_mday tu,
                    dt_hour = tm_hour tu, dt_minute = tm_min tu,
                    dt_second = (if 60 \<le> tm_sec tu then 59 else tm_sec tu)\<rparr>"
    using convert_time_value [OF ud] by (simp add: clamp split: option.splits)
qed

theorem extract_meta_fields_witness:
  "(1::nat) < length [entry_jan1, entry_dec31] \<and>
   (\<exists>ms. extract_meta [entry_jan1, entry_dec31] = Inr ms \<and> length ms = 2 \<and>
      m_title (ms ! 1) = ''Old post'' \<and> m_link (ms ! 1) = [] \<and>
      m_author_name (ms ! 1) = None \<and>
      m_pubdate (ms ! 1) =
        Some \<lparr>dt_year = 2023, dt_month = 12, dt_day = 31, dt_hour = 23, dt_minute = 59,
              dt_second = 59\<rparr>)"
proof -
  have n: "list_all normalisable [entry_jan1, entry_dec31]"
    by (simp add: entry_jan1_normalisable entry_dec31_normalisable)
  have i: "(1::nat) < length [entry_jan1, entry_dec31]" by simp
  from extract_meta_fields [OF i] n obtain ms where
    ms: "extract_meta [entry_jan1, entry_dec31] = Inr ms" by blast
  with extract_meta_fields [OF i] show ?thesis
    by (simp add: entry_dec31_def blank_entry_def)
qed

text \<open>
  C9.  extract_meta is not total: the attributes of an enclosure are read without a
  guard.  An entry whose enclosure link has no length, as an Atom link may, raises
  AttributeError, where the tags of the same entry are read with \<^verbatim>\<open>tag.get('term')\<close>.
\<close>

theorem extract_meta_raises_on_bare_enclosure:
  "extract_meta [entry_podcast] = Inl (AttributeError ''length'')"
  by (simp add: extract_meta_def extract_meta_entry_def entry_podcast_def blank_entry_def
      convert_time_def to_datetime_def datetime_new_def datetime_in_range_def
      days_in_month_def demo_time_def convert_enclosures_def new_Enclosure_def getattr_def)

section \<open>The order of the merged entries (C2)\<close>

text \<open>
  C2.  The merge sorts on the string stored under 'published', not on the publication
  time.  For an RSS feed whose items are dated "Fri, 05 Jan 2024" and "Mon, 01 Jan 2024"
  the run returns the item of 1 January before the item of 5 January: the returned list
  is not in non-increasing order of \<open>pubdate\<close>.
\<close>

theorem merged_order_follows_published_string:
  "fst (mixed_entries demo_env demo_mixer) = Inr [record_jan1, record_jan5] \<and>
   \<not> pubdate_nonincreasing [record_jan1, record_jan5]"
  by (simp add: demo_mixed pubdate_nonincreasing_def pubdate_ge_def record_jan1_def
      record_jan5_def datetime_le_def datetime_key_def)

section \<open>Reuse of the stored result (C3)\<close>

text \<open>
  C3, as the code has it.  After an access that returned a non-empty list \<open>ms\<close> and left
  the object in state \<open>self\<close>, the list is stored in the object, and every further access
  to \<open>mixed_entries\<close> or to a render operation, in whatever environment, returns \<open>ms\<close> (or
  its serialisation) and leaves the state as it is: the cache is not asked again and the
  error map stays.  If the stored list was empty before that access, the access was one
  run of the pipeline; otherwise it changed nothing.
\<close>

theorem populated_result_is_reused:
  assumes "mixed_entries ev0 self0 = (Inr ms, self)" and "ms \<noteq> []"
  shows "self_mixed_entries self = ms \<and>
         mixed_entries ev self = (Inr ms, self) \<and>
         json_feed ev self = (Inr (json_dumps ev ms), self) \<and>
         atom_feed ev self =
           (Inr (writeString ev
              \<lparr>sf_cls = Atom1Feed, sf_title = title self, sf_link = link self,
               sf_description = desc self, sf_items = ms\<rparr>), self) \<and>
         rss_feed ev self =
           (Inr (writeString ev
              \<lparr>sf_cls = Rss201rev2Feed, sf_title = title self, sf_link = link self,
               sf_description = desc self, sf_items = ms\<rparr>), self) \<and>
         (self_mixed_entries self0 = [] \<longrightarrow> fetch_entries ev0 self0 = (Inr (), self)) \<and>
         (self_mixed_entries self0 \<noteq> [] \<longrightarrow> self = self0)"
proof -
  have stored: "self_mixed_entries self = ms"
    using assms(1)
    by (auto simp add: mixed_entries_def split: if_splits prod.splits sum.splits)
  with assms(2) have again: "mixed_entries ev self = (Inr ms, self)"
    by (simp add: mixed_entries_def)
  have first: "fetch_entries ev0 self0 = (Inr (), self)" if "self_mixed_entries self0 = []"
    using assms(1) that
    by (auto simp add: mixed_entries_def split: prod.splits sum.splits)
  have same: "self = self0" if "self_mixed_entries self0 \<noteq> []"
    using assms(1) that by (simp add: mixed_entries_def)
  from stored again first same show ?thesis
    by (simp add: json_feed_def atom_feed_def rss_feed_def render_feed_def generate_feed_def)
qed

theorem populated_result_is_reused_witness:
  "mixed_entries demo_env demo_mixer = (Inr [record_jan1, record_jan5], populated_mixer) \<and>
   [record_jan1, record_jan5] \<noteq> [] \<and>
   mixed_entries demo_env populated_mixer = (Inr [record_jan1, record_jan5], populated_mixer) \<and>
   json_feed demo_env populated_mixer = (Inr ''First postSecond post'', populated_mixer) \<and>
   fetch_entries demo_env demo_mixer = (Inr (), populated_mixer)"
proof -
  have a: "mixed_entries demo_env demo_mixer = (Inr [record_jan1, record_jan5], populated_mixer)"
    by (rule demo_mixed)
  have b: "[record_jan1, record_jan5] \<noteq> []" by simp
  have c: "self_mixed_entries demo_mixer = []" by (simp add: demo_mixer_def init_def)
  have d: "json_dumps demo_env [record_jan1, record_jan5] = ''First postSecond post''"
    by (simp add: demo_env_def record_jan1_def record_jan5_def)
  from populated_result_is_reused [OF a b, of demo_env] a c d show ?thesis by simp
qed

text \<open>
  C3 as stated includes a run whose result is the empty list.  When every source fails
  the run stores the empty list, which is what the accessor takes for "not yet fetched":
  the first access makes two requests, the second access makes two more.
\<close>

theorem empty_result_is_fetched_again:
  "fst (mixed_entries demo_env failing_mixer) = Inr [] \<and>
   cache (snd (mixed_entries demo_env failing_mixer)) = 2 \<and>
   cache (snd (mixed_entries demo_env (snd (mixed_entries demo_env failing_mixer)))) = 4"
proof -
  have a: "mixed_entries demo_env failing_mixer =
     (Inr [],
      failing_mixer
        \<lparr>cache := Suc (Suc 0),
         self_error_urls :=
           [''http://b.example/down'' \<mapsto> RequestException ''timed out'',
            ''http://c.example/html'' \<mapsto> ParseError ''Parse error: syntax error'']\<rparr>)"
    using failing_mixed [where c = 0 and e = Map.empty] failing_mixer_start by simp
  show ?thesis
    unfolding a by (simp add: failing_mixed)
qed

section \<open>Completion of the run (C1)\<close>

text \<open>
  C1.  The run does not always complete.  With one source that times out and one Atom
  source whose single entry has an update time but no 'published' value (an entry that
  extract_meta would normalise), the failing URL is recorded in \<open>error_urls\<close>, and the
  access to \<open>mixed_entries\<close> then raises KeyError from the sort key \<^verbatim>\<open>e['published']\<close>,
  which is read outside the \<^verbatim>\<open>try\<close>; nothing is returned and no merged entries are stored.
\<close>

theorem run_raises_without_published:
  "fst (mixed_entries demo_env atom_mixer) = Inl (KeyError ''published'') \<and>
   dom (error_urls (snd (mixed_entries demo_env atom_mixer))) = {''http://b.example/down''} \<and>
   self_mixed_entries (snd (mixed_entries demo_env atom_mixer)) = [] \<and>
   normalisable entry_updated_only"
  by (simp add: atom_run error_urls_def)
    (simp add: atom_mixer_def init_def normalisable_def entry_updated_only_def blank_entry_def
      time_ok_def demo_time_def datetime_in_range_def days_in_month_def)

end
